theory Spec2Isabelle
  imports Main
begin

section \<open>The events batcher of the sync library (filters/batcher.go)\<close>

text \<open>
  The theory embeds \<^verbatim>\<open>FilterBatch\<close>, \<^verbatim>\<open>ProcessEvents\<close> and the selector loop of
  \<^verbatim>\<open>BatchEvents\<close>. Logging and the fan-out of \<^verbatim>\<open>sendEvent\<close> do not touch the batch and
  are left out. A Go panic (a nil pointer dereference) is the value \<open>Inl NilPointer\<close>.
\<close>

subsection \<open>Strings and paths of the Go library\<close>

definition HasPrefix :: "string \<Rightarrow> string \<Rightarrow> bool" where
  \<comment> \<open>strings.HasPrefix(s, prefix)\<close>
  "HasPrefix s prefix = (take (length prefix) s = prefix)"

definition TrimPrefix :: "string \<Rightarrow> string \<Rightarrow> string" where
  \<comment> \<open>strings.TrimPrefix(s, prefix)\<close>
  "TrimPrefix s prefix = (if HasPrefix s prefix then drop (length prefix) s else s)"

definition Base :: "string \<Rightarrow> string" where
  \<comment> \<open>path.Base: the last element, trailing slashes dropped; "." for the empty path
      and "/" for a path of slashes only\<close>
  "Base p =
     (if p = [] then ''.''
      else let stripped = rev (dropWhile (\<lambda>c. c = CHR ''/'') (rev p));
               last_elem = rev (takeWhile (\<lambda>c. c \<noteq> CHR ''/'') (rev stripped))
           in if last_elem = [] then ''/'' else last_elem)"

text \<open>Modelled from the spec: the constant \<^verbatim>\<open>common.PYDIO_SYNC_HIDDEN_FILE_META\<close>, declared
  outside the file; the spec's reserved filename is \<^verbatim>\<open>.pydio\<close>.\<close>

definition PYDIO_SYNC_HIDDEN_FILE_META :: string where
  "PYDIO_SYNC_HIDDEN_FILE_META = ''.pydio''"

subsection \<open>Data model\<close>

text \<open>Modelled from the spec: \<^verbatim>\<open>tree.Node\<close> is declared outside the file; the fields are those
  of the spec's Node (\<^verbatim>\<open>IsLeaf()\<close> is the field \<open>IsLeaf\<close>).\<close>

record Node =
  Path :: string
  Uuid :: string
  Etag :: string
  IsLeaf :: bool
  Size :: int
  MTime :: int

text \<open>Modelled from the spec: \<^verbatim>\<open>common.EventInfo\<close> is declared outside the file; the fields are
  those the batcher reads. Any type other than \<open>EventCreate\<close> and \<open>EventRename\<close> is handled by
  the code as a deletion. The field \<open>EventPath\<close> is the event's \<^verbatim>\<open>Path\<close>.\<close>

datatype EventType = EventCreate | EventRename | EventRemove

record EventInfo =
  Type :: EventType
  EventPath :: string
  Folder :: bool
  ScanEvent :: bool
  ScanSourceNode :: "Node option"
  OperationId :: string
  Metadata :: "string \<rightharpoonup> string"

text \<open>Modelled from the spec: \<^verbatim>\<open>BatchedEvent\<close>, \<^verbatim>\<open>Batch\<close>, \<^verbatim>\<open>NewBatch\<close> and \<^verbatim>\<open>Move\<close> are declared
  outside the file. The maps of a batch hold pointers to \<^verbatim>\<open>BatchedEvent\<close> objects, and the
  filter assigns the \<^verbatim>\<open>Node\<close> field through these pointers: a pointer is an address, and the
  objects live in the \<open>store\<close> carried with the batch. An address the store does not
  hold is the nil pointer. The handles \<^verbatim>\<open>Source\<close> and \<^verbatim>\<open>Target\<close> of a batched event are
  never read by the filter and left out. \<open>probes\<close> counts the \<^verbatim>\<open>LoadNode\<close> calls made so far,
  so that an endpoint may answer the same question differently from one call to the next.\<close>

type_synonym addr = nat

record BatchedEvent =
  Key :: string
  EventInfo :: EventInfo
  Node :: "Node option"

record Batch =
  store :: "addr \<rightharpoonup> BatchedEvent"
  probes :: nat
  CreateFiles :: "string \<rightharpoonup> addr"
  CreateFolders :: "string \<rightharpoonup> addr"
  Deletes :: "string \<rightharpoonup> addr"
  FileMoves :: "string \<rightharpoonup> addr"
  RefreshFilesUuid :: "string \<rightharpoonup> addr"

record Move =
  deleteEvent :: addr
  createEvent :: addr
  dbNode :: Node

definition NewBatch :: Batch where
  "NewBatch = \<lparr>store = Map.empty, probes = 0, CreateFiles = Map.empty,
     CreateFolders = Map.empty, Deletes = Map.empty, FileMoves = Map.empty,
     RefreshFilesUuid = Map.empty\<rparr>"

datatype panic = NilPointer

text \<open>\<^verbatim>\<open>LoadNode(ctx, path, leaf...)\<close> of an endpoint: the number of earlier probes, the path and
  the optional leaf hint give the node (or nil) and the error (or nil).\<close>

type_synonym endpoint = "nat \<Rightarrow> string \<Rightarrow> bool option \<Rightarrow> Node option \<times> string option"

record EventsBatcher =
  Source :: endpoint
  Target :: endpoint

text \<open>Go leaves the order of a \<^verbatim>\<open>range\<close> over a map open. Each loop of the filter takes the
  order as a list of keys; a key whose entry is gone when the loop reaches it is skipped,
  as Go does for an entry removed during the iteration.\<close>

record schedule =
  filesOrder :: "string list"
  foldersOrder :: "string list"
  deletesOrder :: "string list"
  uuidOrder :: "string \<Rightarrow> string list"
  etagOrder :: "string \<Rightarrow> string list"
  pruneOrder :: "string list"
  pruneInnerOrder :: "string \<Rightarrow> string list"

fun rangeMap :: "('s \<Rightarrow> string \<rightharpoonup> addr) \<Rightarrow> (string \<Rightarrow> addr \<Rightarrow> 's \<Rightarrow> panic + 's) \<Rightarrow>
    string list \<Rightarrow> 's \<Rightarrow> panic + 's" where
  "rangeMap sel body [] s = Inr s"
| "rangeMap sel body (k # ks) s =
     (case sel s k of
        None \<Rightarrow> rangeMap sel body ks s
      | Some a \<Rightarrow> (case body k a s of Inl p \<Rightarrow> Inl p | Inr s' \<Rightarrow> rangeMap sel body ks s'))"

subsection \<open>FilterBatch\<close>

text \<open>Lines 68-90: the body of the loop over \<^verbatim>\<open>CreateFiles\<close>. With a nil node and a nil error
  the read of \<^verbatim>\<open>node.Uuid\<close> at line 86 panics.\<close>

definition enrichFile :: "EventsBatcher \<Rightarrow> addr \<Rightarrow> Batch \<Rightarrow> panic + Batch" where
  "enrichFile ev a b =
     (case store b a of
        None \<Rightarrow> Inl NilPointer
      | Some ce \<Rightarrow>
          let info = EventInfo ce;
              scan = (ScanEvent info \<and> ScanSourceNode info \<noteq> None);
              loaded = Source ev (probes b) (EventPath info) None;
              node = (if scan then ScanSourceNode info else fst loaded);
              err = (if scan then None else snd loaded);
              b1 = (if scan then b else b\<lparr>probes := Suc (probes b)\<rparr>)
          in if err \<noteq> None then
               Inr (b1\<lparr>CreateFiles := (CreateFiles b1)(Key ce := None),
                        Deletes := (Deletes b1)(Key ce := None)\<rparr>)
             else (case node of
                     None \<Rightarrow> Inl NilPointer
                   | Some n \<Rightarrow>
                       let b2 = b1\<lparr>store := (store b1)(a \<mapsto> ce\<lparr>Node := Some n\<rparr>)\<rparr>
                       in if Uuid n = [] \<and> Base (Path n) \<noteq> PYDIO_SYNC_HIDDEN_FILE_META
                          then Inr (b2\<lparr>RefreshFilesUuid :=
                                          (RefreshFilesUuid b2)(Key ce \<mapsto> a)\<rparr>)
                          else Inr b2))"

text \<open>Lines 92-109: the body of the loop over \<^verbatim>\<open>CreateFolders\<close>; the node is stored as it
  comes, nil included.\<close>

definition enrichFolder :: "EventsBatcher \<Rightarrow> addr \<Rightarrow> Batch \<Rightarrow> panic + Batch" where
  "enrichFolder ev a b =
     (case store b a of
        None \<Rightarrow> Inl NilPointer
      | Some ce \<Rightarrow>
          let info = EventInfo ce;
              scan = (ScanEvent info \<and> ScanSourceNode info \<noteq> None);
              loaded = Source ev (probes b) (EventPath info) (Some False);
              node = (if scan then ScanSourceNode info else fst loaded);
              err = (if scan then None else snd loaded);
              b1 = (if scan then b else b\<lparr>probes := Suc (probes b)\<rparr>)
          in if err \<noteq> None then
               Inr (b1\<lparr>CreateFolders := (CreateFolders b1)(Key ce := None),
                        Deletes := (Deletes b1)(Key ce := None)\<rparr>)
             else Inr (b1\<lparr>store := (store b1)(a \<mapsto> ce\<lparr>Node := node\<rparr>)\<rparr>))"

text \<open>Lines 129-139: the scan of \<^verbatim>\<open>CreateFiles\<close> for a node of the same uuid, up to the
  \<^verbatim>\<open>break\<close>; nothing is assigned before the match.\<close>

fun lookByUuid :: "Batch \<Rightarrow> Node \<Rightarrow> string list \<Rightarrow> panic + addr option" where
  "lookByUuid b n [] = Inr None"
| "lookByUuid b n (k # ks) =
     (case CreateFiles b k of
        None \<Rightarrow> lookByUuid b n ks
      | Some c \<Rightarrow>
          (case store b c of
             None \<Rightarrow> Inl NilPointer
           | Some ce \<Rightarrow>
               (case Node ce of
                  None \<Rightarrow> lookByUuid b n ks
                | Some cn \<Rightarrow> if Uuid cn = Uuid n then Inr (Some c) else lookByUuid b n ks)))"

text \<open>Lines 142-151: the scan of \<^verbatim>\<open>CreateFiles\<close> for nodes of the same etag; the moves found,
  in the order of the scan.\<close>

fun lookByEtag :: "Batch \<Rightarrow> addr \<Rightarrow> Node \<Rightarrow> string list \<Rightarrow> panic + Move list" where
  "lookByEtag b d n [] = Inr []"
| "lookByEtag b d n (k # ks) =
     (case CreateFiles b k of
        None \<Rightarrow> lookByEtag b d n ks
      | Some c \<Rightarrow>
          (case store b c of
             None \<Rightarrow> Inl NilPointer
           | Some ce \<Rightarrow>
               (case lookByEtag b d n ks of
                  Inl p \<Rightarrow> Inl p
                | Inr ms \<Rightarrow>
                    (case Node ce of
                       None \<Rightarrow> Inr ms
                     | Some cn \<Rightarrow>
                         if Etag cn = Etag n
                         then Inr (\<lparr>deleteEvent = d, createEvent = c, dbNode = n\<rparr> # ms)
                         else Inr ms))))"

text \<open>Lines 132-135 and 185-188: the bookkeeping of a move. The create event at \<open>c\<close> takes the
  target-side node and enters \<^verbatim>\<open>FileMoves\<close> under its key; the delete and the create leave
  their collections.\<close>

definition commitMove :: "addr \<Rightarrow> BatchedEvent \<Rightarrow> string \<Rightarrow> Node \<Rightarrow> Batch \<Rightarrow> Batch" where
  "commitMove c ce deleteKey n b =
     b\<lparr>store := (store b)(c \<mapsto> ce\<lparr>Node := Some n\<rparr>),
       FileMoves := (FileMoves b)(Key ce \<mapsto> c),
       Deletes := (Deletes b)(deleteKey := None),
       CreateFiles := (CreateFiles b)(Key ce := None)\<rparr>"

text \<open>Lines 127-152: the two scans for a delete whose node is a leaf: by uuid, and when
  nothing is found, by etag.\<close>

definition matchCreates :: "schedule \<Rightarrow> string \<Rightarrow> addr \<Rightarrow> string \<Rightarrow> Node \<Rightarrow> Batch \<Rightarrow> Move list \<Rightarrow>
    panic + (Batch \<times> Move list)" where
  "matchCreates sch k d deleteKey n b possibleMoves =
     (case lookByUuid b n (uuidOrder sch k) of
        Inl p \<Rightarrow> Inl p
      | Inr (Some c) \<Rightarrow>
          (case store b c of
             None \<Rightarrow> Inl NilPointer
           | Some ce \<Rightarrow> Inr (commitMove c ce deleteKey n b, possibleMoves))
      | Inr None \<Rightarrow>
          (case lookByEtag b d n (etagOrder sch k) of
             Inl p \<Rightarrow> Inl p
           | Inr ms \<Rightarrow> Inr (b, possibleMoves @ ms)))"

text \<open>Lines 155-178: the delete of a node that the index does not hold. When a create
  exists under the same key the source is probed, and a nil node removes the creates;
  the delete is removed anyway.\<close>

definition dropUnindexed :: "EventsBatcher \<Rightarrow> BatchedEvent \<Rightarrow> Batch \<Rightarrow> Batch" where
  "dropUnindexed ev de b =
     (let createFileExists = (CreateFiles b (Key de) \<noteq> None);
          createFolderExists = (CreateFolders b (Key de) \<noteq> None);
          testLeaf = createFileExists;
          existNode = fst (Source ev (probes b) (EventPath (EventInfo de)) (Some testLeaf));
          b2 = (if createFileExists \<or> createFolderExists
                then b\<lparr>probes := Suc (probes b)\<rparr> else b);
          b3 = (if (createFileExists \<or> createFolderExists) \<and> existNode = None
                then b2\<lparr>CreateFiles := (CreateFiles b2)(Key de := None),
                        CreateFolders := (CreateFolders b2)(Key de := None)\<rparr>
                else b2)
      in b3\<lparr>Deletes := (Deletes b3)(Key de := None)\<rparr>)"

text \<open>Lines 114-180: the body of the loop over \<^verbatim>\<open>Deletes\<close>, on the batch and the list
  \<^verbatim>\<open>possibleMoves\<close>; \<open>k\<close> is the map key of the entry and \<open>d\<close> its pointer.\<close>

definition fileMove :: "EventsBatcher \<Rightarrow> schedule \<Rightarrow> string \<Rightarrow> addr \<Rightarrow> Batch \<times> Move list \<Rightarrow>
    panic + (Batch \<times> Move list)" where
  "fileMove ev sch k d s =
     (case s of (b, possibleMoves) \<Rightarrow>
      (case store b d of
         None \<Rightarrow> Inl NilPointer
       | Some de \<Rightarrow>
           let localPath = EventPath (EventInfo de);
               found = (case Node de of
                          Some n \<Rightarrow> Some n
                        | None \<Rightarrow> fst (Target ev (probes b) localPath None));
               b1 = (case Node de of
                       Some n \<Rightarrow> b
                     | None \<Rightarrow> b\<lparr>probes := Suc (probes b)\<rparr>)
           in (case found of
                 Some n \<Rightarrow>
                   let b2 = b1\<lparr>store := (store b1)(d \<mapsto> de\<lparr>Node := Some n\<rparr>)\<rparr>
                   in if IsLeaf n then matchCreates sch k d (Key de) n b2 possibleMoves
                      else Inr (b2, possibleMoves)
               | None \<Rightarrow> Inr (dropUnindexed ev de b1, possibleMoves))))"

text \<open>Lines 183-189: the moves picked by \<^verbatim>\<open>sortClosestMoves\<close> are committed.\<close>

fun commitMoves :: "Move list \<Rightarrow> Batch \<Rightarrow> panic + Batch" where
  "commitMoves [] b = Inr b"
| "commitMoves (move # moves) b =
     (case store b (createEvent move) of
        None \<Rightarrow> Inl NilPointer
      | Some ce \<Rightarrow>
          (case store b (deleteEvent move) of
             None \<Rightarrow> Inl NilPointer
           | Some de \<Rightarrow>
               commitMoves moves (commitMove (createEvent move) ce (Key de) (dbNode move) b)))"

text \<open>Lines 192-201: the keys collected in \<^verbatim>\<open>deleteDelete\<close>; the inner loop for one
  \<^verbatim>\<open>deletePath\<close>, then the outer loop. A delete without a node panics at \<^verbatim>\<open>.Node.Path\<close>.\<close>

fun pruneScan :: "Batch \<Rightarrow> string \<Rightarrow> string list \<Rightarrow> panic + string list" where
  "pruneScan b deletePath [] = Inr []"
| "pruneScan b deletePath (deleteKey # ks) =
     (case Deletes b deleteKey of
        None \<Rightarrow> pruneScan b deletePath ks
      | Some q \<Rightarrow>
          (case store b q of
             None \<Rightarrow> Inl NilPointer
           | Some delEvent \<Rightarrow>
               (case Node delEvent of
                  None \<Rightarrow> Inl NilPointer
                | Some qn \<Rightarrow>
                    (case pruneScan b deletePath ks of
                       Inl p \<Rightarrow> Inl p
                     | Inr r \<Rightarrow>
                         if length (Path qn) > length deletePath \<and> HasPrefix (Path qn) deletePath
                         then Inr (deleteKey # r) else Inr r))))"

fun pruneCollect :: "schedule \<Rightarrow> Batch \<Rightarrow> string list \<Rightarrow> panic + string list" where
  "pruneCollect sch b [] = Inr []"
| "pruneCollect sch b (k # ks) =
     (case Deletes b k of
        None \<Rightarrow> pruneCollect sch b ks
      | Some p \<Rightarrow>
          (case store b p of
             None \<Rightarrow> Inl NilPointer
           | Some folderDeleteEvent \<Rightarrow>
               (case Node folderDeleteEvent of
                  None \<Rightarrow> Inl NilPointer
                | Some pn \<Rightarrow>
                    (case pruneScan b (Path pn) (pruneInnerOrder sch k) of
                       Inl e \<Rightarrow> Inl e
                     | Inr r1 \<Rightarrow>
                         (case pruneCollect sch b ks of
                            Inl e \<Rightarrow> Inl e
                          | Inr r2 \<Rightarrow> Inr (r1 @ r2))))))"

text \<open>Lines 191-205: the pruning of \<^verbatim>\<open>Deletes\<close>.\<close>

definition pruneDeletes :: "schedule \<Rightarrow> Batch \<Rightarrow> panic + Batch" where
  "pruneDeletes sch b =
     (case pruneCollect sch b (pruneOrder sch) of
        Inl p \<Rightarrow> Inl p
      | Inr deleteDelete \<Rightarrow>
          Inr (b\<lparr>Deletes := foldl (\<lambda>m del. m(del := None)) (Deletes b) deleteDelete\<rparr>))"

text \<open>Lines 62-211. \<^verbatim>\<open>detectFolderMoves\<close> and \<^verbatim>\<open>sortClosestMoves\<close> are functions of the
  package that the file does not hold: they are the parameters \<open>dfm\<close> and \<open>scm\<close>.\<close>

definition FilterBatch :: "(Batch \<Rightarrow> panic + Batch) \<Rightarrow> ((addr \<rightharpoonup> BatchedEvent) \<Rightarrow> Move list \<Rightarrow> Move list) \<Rightarrow>
    EventsBatcher \<Rightarrow> schedule \<Rightarrow> Batch \<Rightarrow> panic + Batch" where
  "FilterBatch dfm scm ev sch batch =
     (case rangeMap CreateFiles (\<lambda>k. enrichFile ev) (filesOrder sch) batch of
        Inl p \<Rightarrow> Inl p
      | Inr b1 \<Rightarrow>
     (case rangeMap CreateFolders (\<lambda>k. enrichFolder ev) (foldersOrder sch) b1 of
        Inl p \<Rightarrow> Inl p
      | Inr b2 \<Rightarrow>
     (case dfm b2 of
        Inl p \<Rightarrow> Inl p
      | Inr b3 \<Rightarrow>
     (case rangeMap (\<lambda>s. Deletes (fst s)) (fileMove ev sch) (deletesOrder sch) (b3, []) of
        Inl p \<Rightarrow> Inl p
      | Inr (b4, possibleMoves) \<Rightarrow>
     (case commitMoves (scm (store b4) possibleMoves) b4 of
        Inl p \<Rightarrow> Inl p
      | Inr b5 \<Rightarrow> pruneDeletes sch b5)))))"

subsection \<open>The two helpers of the package that the file does not hold\<close>

text \<open>Modelled from the spec: \<^verbatim>\<open>detectFolderMoves\<close> is not in the file. Phase 3 of the spec: for each
  delete whose node (its own, or the one the target returns) is a folder, the create-folder
  entries whose node has the same uuid are looked up; on a unique match the create entry
  becomes a move carrying the target-side node, and both entries leave \<^verbatim>\<open>Deletes\<close> and
  \<^verbatim>\<open>CreateFolders\<close>. The spec leaves the descendant fingerprint open; it is not modelled.
  \<open>deletes\<close> and \<open>folders\<close> are the orders of the two loops.\<close>

fun folderCandidates :: "Batch \<Rightarrow> Node \<Rightarrow> string list \<Rightarrow> addr list" where
  "folderCandidates b n [] = []"
| "folderCandidates b n (k # ks) =
     (case CreateFolders b k of
        None \<Rightarrow> folderCandidates b n ks
      | Some c \<Rightarrow>
          (case store b c of
             None \<Rightarrow> folderCandidates b n ks
           | Some ce \<Rightarrow>
               (case Node ce of
                  None \<Rightarrow> folderCandidates b n ks
                | Some cn \<Rightarrow>
                    if Uuid cn = Uuid n then c # folderCandidates b n ks
                    else folderCandidates b n ks)))"

definition folderMove :: "endpoint \<Rightarrow> string list \<Rightarrow> string \<Rightarrow> addr \<Rightarrow> Batch \<Rightarrow> panic + Batch" where
  "folderMove target folders k d b =
     (case store b d of
        None \<Rightarrow> Inr b
      | Some de \<Rightarrow>
          let found = (case Node de of
                         Some n \<Rightarrow> Some n
                       | None \<Rightarrow> fst (target (probes b) (EventPath (EventInfo de)) None));
              b1 = (case Node de of
                      Some n \<Rightarrow> b
                    | None \<Rightarrow> b\<lparr>probes := Suc (probes b)\<rparr>)
          in (case found of
                None \<Rightarrow> Inr b1
              | Some n \<Rightarrow>
                  if IsLeaf n then Inr b1
                  else (case folderCandidates b1 n folders of
                          [c] \<Rightarrow>
                            (case store b1 c of
                               None \<Rightarrow> Inr b1
                             | Some ce \<Rightarrow>
                                 Inr (b1\<lparr>store := (store b1)(c \<mapsto> ce\<lparr>Node := Some n\<rparr>),
                                         FileMoves := (FileMoves b1)(Key ce \<mapsto> c),
                                         Deletes := (Deletes b1)(k := None),
                                         CreateFolders := (CreateFolders b1)(Key ce := None)\<rparr>))
                        | _ \<Rightarrow> Inr b1)))"

definition detectFolderMoves :: "endpoint \<Rightarrow> string list \<Rightarrow> string list \<Rightarrow> Batch \<Rightarrow> panic + Batch" where
  "detectFolderMoves target deletes folders b =
     rangeMap Deletes (folderMove target folders) deletes b"

text \<open>Modelled from the spec: \<^verbatim>\<open>sortClosestMoves\<close> is not in the file. Phase 5 of the spec: the
  candidates are ordered by same parent directory first, then the edit distance of the
  basenames, then the difference in depth, then the pair of paths; they are taken in this
  order, a candidate being kept when neither its delete nor its create is consumed yet.\<close>

fun editDistance :: "string \<Rightarrow> string \<Rightarrow> nat" where
  "editDistance [] ys = length ys"
| "editDistance (x # xs) [] = Suc (length xs)"
| "editDistance (x # xs) (y # ys) =
     (if x = y then editDistance xs ys
      else Suc (min (editDistance xs ys) (min (editDistance xs (y # ys)) (editDistance (x # xs) ys))))"

fun lexLess :: "string \<Rightarrow> string \<Rightarrow> bool" where
  "lexLess [] [] = False"
| "lexLess [] (y # ys) = True"
| "lexLess (x # xs) [] = False"
| "lexLess (x # xs) (y # ys) =
     ((of_char x :: nat) < of_char y \<or> (x = y \<and> lexLess xs ys))"

definition Dir :: "string \<Rightarrow> string" where
  "Dir p = rev (dropWhile (\<lambda>c. c \<noteq> CHR ''/'') (rev p))"

definition depth :: "string \<Rightarrow> nat" where
  "depth p = length (filter (\<lambda>c. c = CHR ''/'') p)"

definition deletePath :: "Move \<Rightarrow> string" where
  "deletePath m = Path (dbNode m)"

definition createPath :: "(addr \<rightharpoonup> BatchedEvent) \<Rightarrow> Move \<Rightarrow> string" where
  "createPath st m = (case st (createEvent m) of None \<Rightarrow> [] | Some ce \<Rightarrow> Key ce)"

definition proximity :: "(addr \<rightharpoonup> BatchedEvent) \<Rightarrow> Move \<Rightarrow> nat \<times> nat \<times> nat" where
  "proximity st m =
     (let d = deletePath m; c = createPath st m
      in (if Dir d = Dir c then 0 else 1,
          editDistance (Base d) (Base c),
          if depth d \<le> depth c then depth c - depth d else depth d - depth c))"

definition closer :: "(addr \<rightharpoonup> BatchedEvent) \<Rightarrow> Move \<Rightarrow> Move \<Rightarrow> bool" where
  "closer st m1 m2 =
     (case (proximity st m1, proximity st m2) of
        ((a1, b1, c1), (a2, b2, c2)) \<Rightarrow>
          a1 < a2 \<or> (a1 = a2 \<and> (b1 < b2 \<or> (b1 = b2 \<and> (c1 < c2 \<or> (c1 = c2 \<and>
            (lexLess (deletePath m1) (deletePath m2) \<or>
             (deletePath m1 = deletePath m2 \<and>
              lexLess (createPath st m1) (createPath st m2)))))))))"

fun insertMove :: "(addr \<rightharpoonup> BatchedEvent) \<Rightarrow> Move \<Rightarrow> Move list \<Rightarrow> Move list" where
  "insertMove st m [] = [m]"
| "insertMove st m (x # xs) =
     (if closer st x m then x # insertMove st m xs else m # x # xs)"

fun pickMoves :: "Move list \<Rightarrow> addr list \<Rightarrow> addr list \<Rightarrow> Move list" where
  "pickMoves [] ds cs = []"
| "pickMoves (m # ms) ds cs =
     (if deleteEvent m \<in> set ds \<or> createEvent m \<in> set cs then pickMoves ms ds cs
      else m # pickMoves ms (deleteEvent m # ds) (createEvent m # cs))"

definition sortClosestMoves :: "(addr \<rightharpoonup> BatchedEvent) \<Rightarrow> Move list \<Rightarrow> Move list" where
  "sortClosestMoves st possibleMoves =
     pickMoves (foldr (insertMove st) possibleMoves []) [] []"

subsection \<open>ProcessEvents\<close>

text \<open>Lines 224-242: each event gets a new \<^verbatim>\<open>BatchedEvent\<close>, at the address \<open>a\<close>, and enters
  the collection of its type under its path.\<close>

fun populate :: "addr \<Rightarrow> EventInfo list \<Rightarrow> Batch \<Rightarrow> Batch" where
  "populate a [] batch = batch"
| "populate a (event # events) batch =
     (let key = EventPath event;
          bEvent = \<lparr>Key = key, EventInfo = event, Node = None\<rparr>;
          b = batch\<lparr>store := (store batch)(a \<mapsto> bEvent)\<rparr>
      in populate (Suc a) events
           (if Type event = EventCreate \<or> Type event = EventRename then
              (if Folder event then b\<lparr>CreateFolders := (CreateFolders b)(key \<mapsto> a)\<rparr>
               else b\<lparr>CreateFiles := (CreateFiles b)(key \<mapsto> a)\<rparr>)
            else b\<lparr>Deletes := (Deletes b)(key \<mapsto> a)\<rparr>))"

text \<open>Lines 213-246: the result is the batch sent on \<^verbatim>\<open>batchOut\<close>. The parameter
  \<open>asSession\<close> is not read: the block that read it is commented out (lines 217-222).\<close>

definition ProcessEvents :: "(Batch \<Rightarrow> panic + Batch) \<Rightarrow> ((addr \<rightharpoonup> BatchedEvent) \<Rightarrow> Move list \<Rightarrow> Move list) \<Rightarrow>
    EventsBatcher \<Rightarrow> schedule \<Rightarrow> EventInfo list \<Rightarrow> bool \<Rightarrow> panic + Batch" where
  "ProcessEvents dfm scm ev sch events asSession =
     FilterBatch dfm scm ev sch (populate 0 events NewBatch)"

subsection \<open>BatchEvents\<close>

text \<open>The state of the selector loop: the session buffers \<^verbatim>\<open>ev.batchCache\<close> and the local
  slice \<^verbatim>\<open>batch\<close> of events without a session. An input is what one \<^verbatim>\<open>select\<close> receives:
  an event, a session to close, or the timer. A flush is a call
  \<^verbatim>\<open>go ev.ProcessEvents(events, asSession)\<close>, recorded with its arguments.\<close>

record scheduler =
  batchCache :: "string \<rightharpoonup> EventInfo list"
  batch :: "EventInfo list"

datatype input = Event EventInfo | CloseSession string | Timeout

type_synonym flush = "EventInfo list \<times> bool"

definition NewEventsBatcher :: scheduler where
  "NewEventsBatcher = \<lparr>batchCache = Map.empty, batch = []\<rparr>"

definition session :: "EventInfo \<Rightarrow> string" where
  \<comment> \<open>event.Metadata["X-Pydio-Session"]: the empty string when the key is absent\<close>
  "session event = (case Metadata event ''X-Pydio-Session'' of None \<Rightarrow> [] | Some s \<Rightarrow> s)"

definition buffered :: "scheduler \<Rightarrow> string \<Rightarrow> EventInfo list" where
  \<comment> \<open>ev.batchCache[session]: the nil slice when the key is absent\<close>
  "buffered st s = (case batchCache st s of None \<Rightarrow> [] | Some events \<Rightarrow> events)"

text \<open>Lines 254-293: one turn of the loop.\<close>

fun select :: "scheduler \<Rightarrow> input \<Rightarrow> scheduler \<times> flush list" where
  "select st (Event event) =
     (if session event \<noteq> [] then
        (if HasPrefix (session event) ''close-'' then
           let s = TrimPrefix (session event) ''close-'';
               events = buffered st s @ [event]
           in (st\<lparr>batchCache := (batchCache st)(s := None)\<rparr>, [(events, True)])
         else
           (st\<lparr>batchCache := (batchCache st)(session event \<mapsto>
                  buffered st (session event) @ [event])\<rparr>, []))
      else if ScanEvent event \<or> OperationId event = [] then
        (st\<lparr>batch := batch st @ [event]\<rparr>, [])
      else (st, []))"
| "select st (CloseSession s) =
     (case batchCache st s of
        Some events \<Rightarrow> (st\<lparr>batchCache := (batchCache st)(s := None)\<rparr>, [(events, True)])
      | None \<Rightarrow> (st, []))"
| "select st Timeout =
     (if length (batch st) > 0 then (st\<lparr>batch := []\<rparr>, [(batch st, False)]) else (st, []))"

text \<open>Lines 253-295: the loop over the inputs received so far, with the flushes it started.\<close>

fun BatchEvents :: "scheduler \<Rightarrow> input list \<Rightarrow> scheduler \<times> flush list" where
  "BatchEvents st [] = (st, [])"
| "BatchEvents st (i # ins) =
     (case select st i of (st1, out1) \<Rightarrow>
        (case BatchEvents st1 ins of (st2, out2) \<Rightarrow> (st2, out1 @ out2)))"

subsection \<open>Concrete endpoints, events and orders\<close>

definition leaf :: "string \<Rightarrow> string \<Rightarrow> string \<Rightarrow> Node" where
  "leaf p u e = \<lparr>Path = p, Uuid = u, Etag = e, IsLeaf = True, Size = 0, MTime = 0\<rparr>"

definition found :: "string \<Rightarrow> string \<Rightarrow> endpoint" where
  \<comment> \<open>every path holds a file of uuid \<open>u\<close> and etag \<open>e\<close>\<close>
  "found u e = (\<lambda>n p hint. (Some (leaf p u e), None))"

definition indexed :: endpoint where
  \<comment> \<open>every path holds a file with a uuid and an etag of its own\<close>
  "indexed = (\<lambda>n p hint. (Some (leaf p (''uuid:'' @ p) (''etag:'' @ p)), None))"

definition absent :: endpoint where
  \<comment> \<open>no path exists: nil node, nil error\<close>
  "absent = (\<lambda>n p hint. (None, None))"

definition failing :: endpoint where
  \<comment> \<open>every probe returns an error\<close>
  "failing = (\<lambda>n p hint. (None, Some ''load failed''))"

definition plainEvent :: "EventType \<Rightarrow> string \<Rightarrow> bool \<Rightarrow> EventInfo" where
  \<comment> \<open>a watcher event without session and without operation\<close>
  "plainEvent t p folder = \<lparr>Type = t, EventPath = p, Folder = folder, ScanEvent = False,
     ScanSourceNode = None, OperationId = [], Metadata = Map.empty\<rparr>"


definition sameOrder :: "string list \<Rightarrow> schedule" where
  "sameOrder ks = \<lparr>filesOrder = ks, foldersOrder = ks, deletesOrder = ks,
     uuidOrder = (\<lambda>k. ks), etagOrder = (\<lambda>k. ks), pruneOrder = ks,
     pruneInnerOrder = (\<lambda>k. ks)\<rparr>"

definition filterRun :: "EventsBatcher \<Rightarrow> string list \<Rightarrow> EventInfo list \<Rightarrow> bool \<Rightarrow> panic + Batch" where
  \<comment> \<open>ProcessEvents with the two helpers as the spec describes them, every loop in the order \<open>ks\<close>\<close>
  "filterRun ev ks events asSession =
     ProcessEvents (detectFolderMoves (Target ev) ks ks) sortClosestMoves ev (sameOrder ks)
       events asSession"


definition failedProbes :: Batch where
  \<comment> \<open>a created file and a created folder, each deleted too, before the filter\<close>
  "failedProbes = populate 0 [plainEvent EventCreate ''/f'' False, plainEvent EventCreate ''/d'' True,
     plainEvent EventRemove ''/f'' False, plainEvent EventRemove ''/d'' False] NewBatch"

subsection \<open>Notions used in the properties of the filter\<close>










subsection \<open>Notions used in the properties of the selector loop\<close>




definition apart :: "scheduler \<Rightarrow> string \<Rightarrow> bool" where
  \<comment> \<open>no event tagged \<open>s\<close> waits in the buffer of another session or in the anonymous one\<close>
  "apart st s =
     ((\<forall>t events. t \<noteq> s \<longrightarrow> batchCache st t = Some events \<longrightarrow>
         (\<forall>e\<in>set events. session e \<noteq> s)) \<and>
      (\<forall>e\<in>set (batch st). session e \<noteq> s))"

definition tagged :: "scheduler \<Rightarrow> bool" where
  \<comment> \<open>every buffer holds events of its own tag only; holds in every state the loop reaches\<close>
  "tagged st = ((\<forall>t events. batchCache st t = Some events \<longrightarrow> (\<forall>e\<in>set events. session e = t)) \<and>
     (\<forall>e\<in>set (batch st). session e = []))"

section \<open>Evaluation of the filter\<close>

lemmas filter_defs = filterRun_def ProcessEvents_def FilterBatch_def NewBatch_def
  enrichFile_def enrichFolder_def fileMove_def matchCreates_def commitMove_def
  dropUnindexed_def pruneDeletes_def detectFolderMoves_def
  folderMove_def sortClosestMoves_def sameOrder_def Let_def HasPrefix_def Base_def
  PYDIO_SYNC_HIDDEN_FILE_META_def leaf_def found_def indexed_def absent_def failing_def
  plainEvent_def

text \<open>C2. The claim: pruning removes a delete only under another delete's path followed by
  a separator, so that deletes at \<^verbatim>\<open>/a\<close> and \<^verbatim>\<open>/ab\<close>, both resolved on the target, both
  survive. The code at line 197 tests the length and the bare prefix: the delete at
  \<^verbatim>\<open>/ab\<close> is removed and only \<^verbatim>\<open>/a\<close> is left.\<close>

theorem prune_drops_sibling_sharing_prefix:
  "map_sum id (\<lambda>b. (Deletes b ''/a'', Deletes b ''/ab''))
     (filterRun \<lparr>Source = absent, Target = indexed\<rparr> [''/a'', ''/ab'']
        [plainEvent EventRemove ''/a'' False, plainEvent EventRemove ''/ab'' False] False)
   = Inr (Some 0, None)"
  by (simp add: filter_defs)

text \<open>C3. The claim: a create is classified as a move at once only when its node has a
  non-empty uuid equal to the delete's. The code at line 130 compares the two uuids and
  nothing else: a new file \<^verbatim>\<open>/b\<close> without uuid and a deleted file \<^verbatim>\<open>/a\<close> whose node has no
  uuid either become the move of \<^verbatim>\<open>/a\<close> to \<^verbatim>\<open>/b\<close>; the create and the delete are gone.\<close>

theorem empty_uuids_match_as_move:
  "map_sum id (\<lambda>b. (FileMoves b ''/b'', map_option Node (store b 0), CreateFiles b ''/b'',
        Deletes b ''/a''))
     (filterRun \<lparr>Source = found [] ''new'', Target = found [] ''old''\<rparr> [''/a'', ''/b'']
        [plainEvent EventCreate ''/b'' False, plainEvent EventRemove ''/a'' False] False)
   = Inr (Some 0, Some (Some (leaf ''/a'' [] ''old'')), None, None)"
  by (simp add: filter_defs)

text \<open>C4. The claim: after the filter every remaining create has a node, whatever the
  probes return, a nil node with a nil error included. The folder branch (lines 100-107)
  tests the error only: the created folder \<^verbatim>\<open>/d\<close> that the source does not find stays in
  \<^verbatim>\<open>CreateFolders\<close>, its node nil.\<close>

theorem folder_kept_without_node:
  "map_sum id (\<lambda>b. (CreateFolders b ''/d'', map_option Node (store b 0)))
     (filterRun \<lparr>Source = absent, Target = indexed\<rparr> [''/d'']
        [plainEvent EventCreate ''/d'' True] False)
   = Inr (Some 0, Some None)"
  by (simp add: filter_defs)

text \<open>C5. The claim: the filter has no fatal path; the create-file branch does not crash
  on a nil node with a nil error. The code reads \<^verbatim>\<open>node.Uuid\<close> at line 86 after testing the
  error only: for the created file \<^verbatim>\<open>/f\<close> that the source does not find, the filter panics.\<close>

theorem file_without_node_panics:
  "filterRun \<lparr>Source = absent, Target = indexed\<rparr> [''/f'']
     [plainEvent EventCreate ''/f'' False] False = Inl NilPointer"
  by (simp add: filter_defs)

section \<open>The selector loop\<close>








lemma buffered_batch [simp]: "buffered (st\<lparr>batch := events\<rparr>) s = buffered st s"
  by (simp add: buffered_def)


lemma buffered_other [simp]:
  "t \<noteq> s \<Longrightarrow> buffered (st\<lparr>batchCache := (batchCache st)(t := v)\<rparr>) s = buffered st s"
  by (simp add: buffered_def)

lemma buffered_put [simp]:
  "buffered (st\<lparr>batchCache := (batchCache st)(s \<mapsto> events)\<rparr>) s = events"
  by (simp add: buffered_def)





text \<open>The hypothesis \<open>apart\<close> of the next theorem holds in every state that the loop
  reaches from a new batcher.\<close>

lemma tagged_cache: "tagged st \<Longrightarrow> batchCache st t = Some events \<Longrightarrow> e \<in> set events \<Longrightarrow> session e = t"
  unfolding tagged_def by blast

lemma tagged_batch: "tagged st \<Longrightarrow> e \<in> set (batch st) \<Longrightarrow> session e = []"
  unfolding tagged_def by blast

lemma tagged_buffered: "tagged st \<Longrightarrow> e \<in> set (buffered st t) \<Longrightarrow> session e = t"
proof (cases "batchCache st t")
  case None
  assume "e \<in> set (buffered st t)"
  with None show ?thesis by (simp add: buffered_def)
next
  case (Some events)
  assume "tagged st" "e \<in> set (buffered st t)"
  with Some tagged_cache[of st t events e] show ?thesis by (simp add: buffered_def)
qed

lemma tagged_drop:
  assumes "tagged st"
  shows "tagged (st\<lparr>batchCache := (batchCache st)(t := None)\<rparr>)"
  unfolding tagged_def
proof (intro conjI allI impI ballI)
  fix u events e
  assume h: "batchCache (st\<lparr>batchCache := (batchCache st)(t := None)\<rparr>) u = Some events"
    and e: "e \<in> set events"
  from h have "batchCache st u = Some events" by (cases "u = t") simp_all
  from tagged_cache[OF assms this e] show "session e = u" .
next
  fix e
  assume "e \<in> set (batch (st\<lparr>batchCache := (batchCache st)(t := None)\<rparr>))"
  then have "e \<in> set (batch st)" by simp
  from tagged_batch[OF assms this] show "session e = []" .
qed

lemma tagged_put:
  assumes "tagged st" "\<forall>e\<in>set new. session e = t"
  shows "tagged (st\<lparr>batchCache := (batchCache st)(t \<mapsto> new)\<rparr>)"
  unfolding tagged_def
proof (intro conjI allI impI ballI)
  fix u events e
  assume h: "batchCache (st\<lparr>batchCache := (batchCache st)(t \<mapsto> new)\<rparr>) u = Some events"
    and e: "e \<in> set events"
  show "session e = u"
  proof (cases "u = t")
    case True
    with h have "events = new" by simp
    with assms(2) e True show ?thesis by blast
  next
    case False
    with h have "batchCache st u = Some events" by simp
    from tagged_cache[OF assms(1) this e] show ?thesis .
  qed
next
  fix e
  assume "e \<in> set (batch (st\<lparr>batchCache := (batchCache st)(t \<mapsto> new)\<rparr>))"
  then have "e \<in> set (batch st)" by simp
  from tagged_batch[OF assms(1) this] show "session e = []" .
qed

lemma tagged_anonymous:
  assumes "tagged st" "\<forall>e\<in>set new. session e = []"
  shows "tagged (st\<lparr>batch := new\<rparr>)"
  unfolding tagged_def
proof (intro conjI allI impI ballI)
  fix u events e
  assume "batchCache (st\<lparr>batch := new\<rparr>) u = Some events" and e: "e \<in> set events"
  then have "batchCache st u = Some events" by simp
  from tagged_cache[OF assms(1) this e] show "session e = u" .
next
  fix e
  assume "e \<in> set (batch (st\<lparr>batch := new\<rparr>))"
  with assms(2) show "session e = []" by simp
qed

lemma select_tagged:
  assumes "tagged st" "select st i = (st', out)"
  shows "tagged st'"
proof (cases i)
  case (Event e)
  show ?thesis
  proof (cases "session e = []")
    case True
    have "\<forall>x\<in>set (batch st @ [e]). session x = []"
      using tagged_batch[OF assms(1)] True by auto
    from tagged_anonymous[OF assms(1) this]
    have "tagged (st\<lparr>batch := batch st @ [e]\<rparr>)" .
    moreover from assms(2) Event True
    have "st' = st\<lparr>batch := batch st @ [e]\<rparr> \<or> st' = st" by (auto split: if_splits)
    ultimately show ?thesis using assms(1) by blast
  next
    case ne: False
    show ?thesis
    proof (cases "HasPrefix (session e) ''close-''")
      case True
      with assms(2) Event ne
      have "st' = st\<lparr>batchCache := (batchCache st)(TrimPrefix (session e) ''close-'' := None)\<rparr>"
        by (simp add: Let_def)
      with tagged_drop[OF assms(1)] show ?thesis by simp
    next
      case False
      have "\<forall>x\<in>set (buffered st (session e) @ [e]). session x = session e"
        using tagged_buffered[OF assms(1)] by auto
      from tagged_put[OF assms(1) this] assms(2) Event ne False show ?thesis by simp
    qed
  qed
next
  case (CloseSession t)
  from assms(2) CloseSession
  have "st' = st\<lparr>batchCache := (batchCache st)(t := None)\<rparr> \<or> st' = st"
    by (auto split: option.splits)
  with tagged_drop[OF assms(1)] assms(1) show ?thesis by blast
next
  case Timeout
  from assms(2) Timeout have "st' = st\<lparr>batch := []\<rparr> \<or> st' = st" by (auto split: if_splits)
  with tagged_anonymous[OF assms(1), of "[]"] assms(1) show ?thesis by auto
qed

lemma BatchEvents_tagged: "tagged st \<Longrightarrow> BatchEvents st ins = (st', out) \<Longrightarrow> tagged st'"
proof (induction ins arbitrary: st st' out)
  case Nil
  then show ?case by simp
next
  case (Cons i ins)
  obtain st1 out1 where s1: "select st i = (st1, out1)" by (cases "select st i")
  obtain st2 out2 where s2: "BatchEvents st1 ins = (st2, out2)" by (cases "BatchEvents st1 ins")
  from Cons.prems(2) s1 s2 have "st' = st2" by simp
  with Cons.IH[OF select_tagged[OF Cons.prems(1) s1] s2] show ?case by simp
qed

lemma tagged_apart:
  assumes "tagged st" "s \<noteq> []"
  shows "apart st s"
  unfolding apart_def
proof (intro conjI allI impI ballI)
  fix t events e
  assume "t \<noteq> s" "batchCache st t = Some events" "e \<in> set events"
  with tagged_cache[OF assms(1)] show "session e \<noteq> s" by blast
next
  fix e
  assume "e \<in> set (batch st)"
  with tagged_batch[OF assms(1)] assms(2) show "session e \<noteq> s" by metis
qed

lemma reachable_apart:
  assumes "BatchEvents NewEventsBatcher ins = (st, out)" "s \<noteq> []"
  shows "apart st s"
proof -
  have "tagged NewEventsBatcher" by (simp add: tagged_def NewEventsBatcher_def)
  from tagged_apart[OF BatchEvents_tagged[OF this assms(1)] assms(2)] show ?thesis .
qed



text \<open>C9, as the claim states it, fails: the two calls, with \<open>asSession\<close> true and false,
  give the same batch, which carries no mark of a session.\<close>

theorem asSession_leaves_no_mark:
  "filterRun \<lparr>Source = indexed, Target = absent\<rparr> [''/p'']
     [plainEvent EventCreate ''/p'' False] True =
   filterRun \<lparr>Source = indexed, Target = absent\<rparr> [''/p'']
     [plainEvent EventCreate ''/p'' False] False"
  by (simp add: filterRun_def ProcessEvents_def)

text \<open>C9 amended. \<^verbatim>\<open>ProcessEvents\<close> does not read \<open>asSession\<close>: for all events, endpoints and
  orders the batch is the same whether the flush is a session flush or a timer flush.\<close>

theorem ProcessEvents_ignores_asSession:
  "ProcessEvents dfm scm ev sch events True = ProcessEvents dfm scm ev sch events False"
  by (simp add: ProcessEvents_def)

text \<open>C10, as the claim states it, fails: the event with the empty path, without session
  and operation, is appended to the anonymous buffer, flushed by the timer, and enters
  \<^verbatim>\<open>CreateFiles\<close> under the empty key.\<close>

theorem empty_path_event_batched:
  "BatchEvents NewEventsBatcher [Event (plainEvent EventCreate [] False), Timeout] =
     (NewEventsBatcher, [([plainEvent EventCreate [] False], False)]) \<and>
   map_sum id (\<lambda>b. CreateFiles b [])
     (filterRun \<lparr>Source = indexed, Target = absent\<rparr> [[]]
        [plainEvent EventCreate [] False] False) = Inr (Some 0)"
  by (simp add: filter_defs NewEventsBatcher_def session_def)

text \<open>C10 amended. An event is dropped at ingestion (state unchanged, nothing flushed) if
  and only if it has no session tag, is not a scan event and has an operation id; its
  path plays no part.\<close>

theorem dropped_iff_operation_without_session:
  "select st (Event event) = (st, []) \<longleftrightarrow>
     (session event = [] \<and> \<not> ScanEvent event \<and> OperationId event \<noteq> [])"
proof -
  have a: "st\<lparr>batch := batch st @ [event]\<rparr> \<noteq> st"
  proof
    assume "st\<lparr>batch := batch st @ [event]\<rparr> = st"
    then have "batch (st\<lparr>batch := batch st @ [event]\<rparr>) = batch st" by simp
    then show False by simp
  qed
  have b: "st\<lparr>batchCache := (batchCache st)(session event \<mapsto> buffered st (session event) @ [event])\<rparr> \<noteq> st"
  proof
    assume eq: "st\<lparr>batchCache := (batchCache st)(session event \<mapsto> buffered st (session event) @ [event])\<rparr> = st"
    have "buffered (st\<lparr>batchCache := (batchCache st)(session event \<mapsto> buffered st (session event) @ [event])\<rparr>) (session event)
        = buffered st (session event) @ [event]" by simp
    with eq have "buffered st (session event) = buffered st (session event) @ [event]" by simp
    then show False by simp
  qed
  show ?thesis using a b by (auto simp: Let_def)
qed

section \<open>Probe failures\<close>

text \<open>C8. When the loop over \<^verbatim>\<open>CreateFiles\<close> reaches the entry \<open>k\<close> and its probe returns an
  error, the loop goes on over the remaining keys from the batch in which one more probe
  is counted and \<open>k\<close> is removed from \<^verbatim>\<open>CreateFiles\<close> and from \<^verbatim>\<open>Deletes\<close>, nothing else being
  changed; the same holds for the loop over \<^verbatim>\<open>CreateFolders\<close>.\<close>

theorem probe_failure_localized:
  "(store b a = Some ce \<and> Key ce = k \<and> CreateFiles b k = Some a \<and>
    \<not> (ScanEvent (EventInfo ce) \<and> ScanSourceNode (EventInfo ce) \<noteq> None) \<and>
    snd (Source ev (probes b) (EventPath (EventInfo ce)) None) \<noteq> None \<longrightarrow>
    rangeMap CreateFiles (\<lambda>k. enrichFile ev) (k # ks) b =
    rangeMap CreateFiles (\<lambda>k. enrichFile ev) ks
      (b\<lparr>probes := Suc (probes b), CreateFiles := (CreateFiles b)(k := None),
         Deletes := (Deletes b)(k := None)\<rparr>)) \<and>
   (store b a' = Some ce' \<and> Key ce' = k' \<and> CreateFolders b k' = Some a' \<and>
    \<not> (ScanEvent (EventInfo ce') \<and> ScanSourceNode (EventInfo ce') \<noteq> None) \<and>
    snd (Source ev (probes b) (EventPath (EventInfo ce')) (Some False)) \<noteq> None \<longrightarrow>
    rangeMap CreateFolders (\<lambda>k. enrichFolder ev) (k' # ks') b =
    rangeMap CreateFolders (\<lambda>k. enrichFolder ev) ks'
      (b\<lparr>probes := Suc (probes b), CreateFolders := (CreateFolders b)(k' := None),
         Deletes := (Deletes b)(k' := None)\<rparr>))"
  by (auto simp: enrichFile_def enrichFolder_def Let_def)

theorem probe_failure_localized_witness:
  "CreateFiles failedProbes ''/f'' = Some 0 \<and> CreateFolders failedProbes ''/d'' = Some 1 \<and>
   rangeMap CreateFiles (\<lambda>k. enrichFile \<lparr>Source = failing, Target = indexed\<rparr>) [''/f''] failedProbes =
     Inr (failedProbes\<lparr>probes := 1, CreateFiles := (CreateFiles failedProbes)(''/f'' := None),
        Deletes := (Deletes failedProbes)(''/f'' := None)\<rparr>) \<and>
   rangeMap CreateFolders (\<lambda>k. enrichFolder \<lparr>Source = failing, Target = indexed\<rparr>) [''/d''] failedProbes =
     Inr (failedProbes\<lparr>probes := 1, CreateFolders := (CreateFolders failedProbes)(''/d'' := None),
        Deletes := (Deletes failedProbes)(''/d'' := None)\<rparr>)"
proof -
  have h: "store failedProbes 0 = Some \<lparr>Key = ''/f'', EventInfo = plainEvent EventCreate ''/f'' False, Node = None\<rparr>"
    "store failedProbes 1 = Some \<lparr>Key = ''/d'', EventInfo = plainEvent EventCreate ''/d'' True, Node = None\<rparr>"
    "CreateFiles failedProbes ''/f'' = Some 0" "CreateFolders failedProbes ''/d'' = Some 1"
    "probes failedProbes = 0"
    by (simp_all add: failedProbes_def NewBatch_def Let_def plainEvent_def)
  have e: "EventPath (plainEvent EventCreate ''/f'' False) = ''/f''"
    "EventPath (plainEvent EventCreate ''/d'' True) = ''/d''"
    "\<not> ScanEvent (plainEvent EventCreate ''/f'' False)"
    "\<not> ScanEvent (plainEvent EventCreate ''/d'' True)"
    "snd (failing 0 ''/f'' None) \<noteq> None" "snd (failing 0 ''/d'' (Some False)) \<noteq> None"
    by (simp_all add: plainEvent_def failing_def)
  show ?thesis
    using probe_failure_localized [of failedProbes 0
      "\<lparr>Key = ''/f'', EventInfo = plainEvent EventCreate ''/f'' False, Node = None\<rparr>" "''/f''"
      "\<lparr>Source = failing, Target = indexed\<rparr>" "[]" 1
      "\<lparr>Key = ''/d'', EventInfo = plainEvent EventCreate ''/d'' True, Node = None\<rparr>" "''/d''" "[]"]
      h e
    by simp
qed

section \<open>The four collections\<close>

























































end
